theory Spec2Isabelle
  imports Complex_Main "HOL-Library.Monad_Syntax"
begin

section \<open>Strings as the code sees them\<close>

text \<open>
  A JavaScript string is modelled as a list of 8-bit characters read as the code points
  U+0000 to U+00FF (Latin-1). On this range the regular-expression classes and the case
  mappings used by the repository are the following.
\<close>

text \<open>The class \<^verbatim>\<open>\d\<close>.\<close>

definition is_digit :: "char \<Rightarrow> bool" where
  "is_digit c = (c \<in> set ''0123456789'')"

text \<open>The class \<^verbatim>\<open>\w\<close>: ASCII letters, digits and the underscore.\<close>

definition is_word :: "char \<Rightarrow> bool" where
  "is_word c =
     (c \<in> set ''abcdefghijklmnopqrstuvwxyzABCDEFGHIJKLMNOPQRSTUVWXYZ0123456789_'')"

text \<open>
  The class \<^verbatim>\<open>\s\<close> below U+0100: tab, line feed, vertical tab, form feed,
  carriage return, space and the no-break space.
\<close>

definition is_space :: "char \<Rightarrow> bool" where
  "is_space c = (c \<in> set [CHR 0x09, CHR 0x0A, CHR 0x0B, CHR 0x0C, CHR 0x0D, CHR 0x20, CHR 0xA0])"

text \<open>
  \<^verbatim>\<open>toLowerCase\<close> on one character: A to Z and the Latin-1 capitals
  U+00C0 to U+00DE (without the multiplication sign U+00D7) move up by 32, which sets
  bit 5 of the code.
\<close>

definition lower_char :: "char \<Rightarrow> char" where
  "lower_char c =
     (let n = (of_char c :: nat) in
      if (65 \<le> n \<and> n \<le> 90) \<or> (192 \<le> n \<and> n \<le> 222 \<and> n \<noteq> 215)
      then (case c of Char b0 b1 b2 b3 b4 b5 b6 b7 \<Rightarrow> Char b0 b1 b2 b3 b4 True b6 b7)
      else c)"

definition toLowerCase :: "string \<Rightarrow> string" where
  "toLowerCase s = map lower_char s"

text \<open>
  \<^verbatim>\<open>toUpperCase\<close> on one character, for a to z and U+00E0 to U+00FE (without
  the division sign U+00F7). The three Latin-1 letters whose capital lies outside
  Latin-1 are left alone; the code upper-cases only the first letter of a matched day
  name, which is an ASCII letter.
\<close>

definition upper_char :: "char \<Rightarrow> char" where
  "upper_char c =
     (let n = (of_char c :: nat) in
      if (97 \<le> n \<and> n \<le> 122) \<or> (224 \<le> n \<and> n \<le> 254 \<and> n \<noteq> 247)
      then (case c of Char b0 b1 b2 b3 b4 b5 b6 b7 \<Rightarrow> Char b0 b1 b2 b3 b4 False b6 b7)
      else c)"

text \<open>\<^verbatim>\<open>String.prototype.trim\<close>: white space is removed at both ends.\<close>

definition trim :: "string \<Rightarrow> string" where
  "trim s = rev (dropWhile is_space (rev (dropWhile is_space s)))"

text \<open>\<^verbatim>\<open>startsWith\<close>.\<close>

fun startsWith :: "string \<Rightarrow> string \<Rightarrow> bool" where
  "startsWith s [] = True"
| "startsWith [] (p # ps) = False"
| "startsWith (c # cs) (p # ps) = (c = p \<and> startsWith cs ps)"

text \<open>
  A value in a boolean position: \<^verbatim>\<open>undefined\<close> and the empty string are falsy,
  every other string is truthy.
\<close>

fun truthy :: "string option \<Rightarrow> bool" where
  "truthy None = False"
| "truthy (Some s) = (s \<noteq> [])"

text \<open>\<^verbatim>\<open>a || b\<close> on optional strings.\<close>

definition or_else :: "string option \<Rightarrow> string option \<Rightarrow> string option" where
  "or_else a b = (if truthy a then a else b)"

section \<open>lib/slug.ts\<close>

text \<open>
  \<^verbatim>\<open>.replace(/[^\w\s-]/g, '')\<close>: every character outside the three classes is
  deleted.
\<close>

definition keeps :: "char \<Rightarrow> bool" where
  "keeps c = (is_word c \<or> is_space c \<or> c = CHR ''-'')"

definition remove_special :: "string \<Rightarrow> string" where
  "remove_special s = filter keeps s"

text \<open>
  \<^verbatim>\<open>.replace(/[\s_-]+/g, '-')\<close>: every maximal run of white space, underscores
  and hyphens becomes one hyphen.
\<close>

definition is_sep :: "char \<Rightarrow> bool" where
  "is_sep c = (is_space c \<or> c = CHR ''_'' \<or> c = CHR ''-'')"

text \<open>The flag says whether the previous character belonged to the current run.\<close>

fun hyphenate_run :: "bool \<Rightarrow> string \<Rightarrow> string" where
  "hyphenate_run in_run [] = []"
| "hyphenate_run in_run (c # cs) =
     (if is_sep c then (if in_run then hyphenate_run True cs
                        else CHR ''-'' # hyphenate_run True cs)
      else c # hyphenate_run False cs)"

definition hyphenate :: "string \<Rightarrow> string" where
  "hyphenate s = hyphenate_run False s"

text \<open>
  \<^verbatim>\<open>.replace(/^-+|-+$/g, '')\<close>: the hyphens at the start and those at the end
  are deleted.
\<close>

definition strip_hyphens :: "string \<Rightarrow> string" where
  "strip_hyphens s =
     rev (dropWhile (\<lambda>c. c = CHR ''-'') (rev (dropWhile (\<lambda>c. c = CHR ''-'') s)))"

definition slugify :: "string \<Rightarrow> string" where
  "slugify text = strip_hyphens (hyphenate (remove_special (toLowerCase text)))"

text \<open>
  The object built by \<^verbatim>\<open>new URL(url)\<close>, with the three properties the
  repository reads. The constructor belongs to the platform, not to the repository: the
  model takes it as a parameter, a function that gives \<open>None\<close> where the constructor
  throws its \<^verbatim>\<open>TypeError\<close>.
\<close>

record URL =
  protocol :: string
  hostname :: string
  pathname :: string

type_synonym url_parser = "string \<Rightarrow> URL option"

text \<open>\<^verbatim>\<open>hostname.replace(/^www\./, '')\<close>: one leading \<^verbatim>\<open>www.\<close> is cut.\<close>

definition strip_www :: "string \<Rightarrow> string" where
  "strip_www h = (if startsWith h ''www.'' then drop 4 h else h)"

text \<open>The \<^verbatim>\<open>catch\<close> branch takes the whole input string instead of the host name.\<close>

definition createSlugFromUrl :: "url_parser \<Rightarrow> string \<Rightarrow> string" where
  "createSlugFromUrl new_URL url =
     (case new_URL url of
        Some urlObj \<Rightarrow> slugify (strip_www (hostname urlObj))
      | None \<Rightarrow> slugify url)"

text \<open>
  A parser for the plain web addresses of the examples: the scheme \<^verbatim>\<open>http\<close> or
  \<^verbatim>\<open>https\<close>, two slashes, a host made of letters, digits, dots and hyphens, and
  an optional path starting with a slash, with no user, port, query or fragment part.
  On these inputs the platform's constructor gives the lower-cased host and the path
  (\<^verbatim>\<open>/\<close> when there is none). Every other input is rejected here; the
  theorems that speak about all inputs are stated for an arbitrary parser.
\<close>

definition is_host_char :: "char \<Rightarrow> bool" where
  "is_host_char c = ((is_word c \<and> c \<noteq> CHR ''_'') \<or> c = CHR ''.'' \<or> c = CHR ''-'')"

definition is_path_char :: "char \<Rightarrow> bool" where
  "is_path_char c = (is_host_char c \<or> c = CHR ''/'' \<or> c = CHR ''_'')"

definition web_rest :: "string \<Rightarrow> string \<Rightarrow> URL option" where
  "web_rest proto r =
     (let h = takeWhile is_host_char r; p = dropWhile is_host_char r in
      if h \<noteq> [] \<and> hd h \<noteq> CHR ''.'' \<and> last h \<noteq> CHR ''.'' \<and> list_all is_path_char p
         \<and> (p = [] \<or> hd p = CHR ''/'')
      then Some \<lparr>protocol = proto, hostname = toLowerCase h,
                  pathname = (if p = [] then ''/'' else p)\<rparr>
      else None)"

definition web_URL :: url_parser where
  "web_URL url =
     (if startsWith url ''http://'' then web_rest ''http:'' (drop 7 url)
      else if startsWith url ''https://'' then web_rest ''https:'' (drop 8 url)
      else None)"

section \<open>Regular expressions\<close>

text \<open>
  The expressions of the repository are built from character classes, literal text,
  sequence, alternation, the greedy \<^verbatim>\<open>*\<close> and \<^verbatim>\<open>?\<close>, and numbered
  capture groups; \<^verbatim>\<open>\d{1,2}\<close> is a digit followed by an optional digit.
\<close>

datatype regex =
    Atom "char \<Rightarrow> bool"
  | Lit string
  | Seq regex regex
  | Alt regex regex
  | Star regex
  | Opt regex
  | Group nat regex

type_synonym captures = "(nat \<times> string) list"

type_synonym mstate = "string \<times> captures"

text \<open>
  Literal text against the input; under the flag \<^verbatim>\<open>i\<close> the two characters
  are compared after case folding. The result is the input left over.
\<close>

fun lit_rest :: "bool \<Rightarrow> string \<Rightarrow> string \<Rightarrow> string option" where
  "lit_rest ic [] s = Some s"
| "lit_rest ic (p # ps) [] = None"
| "lit_rest ic (p # ps) (c # cs) =
     (if (if ic then lower_char c = lower_char p else c = p) then lit_rest ic ps cs else None)"

text \<open>
  The backtracking matcher, as the list of all ways to match at the start of the input,
  in the order in which the engine tries them: the head of the list is the match the
  engine reports. A state is the input left over and the groups captured so far. An
  iteration of \<^verbatim>\<open>*\<close> or \<^verbatim>\<open>?\<close> that consumes nothing is discarded, as
  the language prescribes. No group of the repository stands under a \<^verbatim>\<open>*\<close>, so
  the reset of captures between iterations is not modelled.
\<close>

fun rmatch :: "bool \<Rightarrow> regex \<Rightarrow> mstate \<Rightarrow> mstate list" where
  "rmatch ic (Atom P) (s, caps) =
     (case s of [] \<Rightarrow> [] | c # cs \<Rightarrow> if P c then [(cs, caps)] else [])"
| "rmatch ic (Lit l) (s, caps) =
     (case lit_rest ic l s of None \<Rightarrow> [] | Some r \<Rightarrow> [(r, caps)])"
| "rmatch ic (Seq a b) st = concat (map (rmatch ic b) (rmatch ic a st))"
| "rmatch ic (Alt a b) st = rmatch ic a st @ rmatch ic b st"
| "rmatch ic (Opt a) (s, caps) =
     filter (\<lambda>st'. length (fst st') < length s) (rmatch ic a (s, caps)) @ [(s, caps)]"
| "rmatch ic (Star a) (s, caps) =
     concat (map (\<lambda>st'. if length (fst st') < length s then rmatch ic (Star a) st' else [])
                 (rmatch ic a (s, caps))) @ [(s, caps)]"
| "rmatch ic (Group n a) (s, caps) =
     map (\<lambda>(r, caps'). (r, (n, take (length s - length r) s) # caps')) (rmatch ic a (s, caps))"

text \<open>
  \<^verbatim>\<open>str.match(re)\<close> without the flag \<^verbatim>\<open>g\<close>: the first start position,
  from the left, at which the expression matches. Group 0 is the matched text.
\<close>

fun search :: "bool \<Rightarrow> regex \<Rightarrow> string \<Rightarrow> captures option" where
  "search ic r [] =
     (case rmatch ic r ([], []) of [] \<Rightarrow> None | (rest, caps) # _ \<Rightarrow> Some ((0, []) # caps))"
| "search ic r (c # cs) =
     (case rmatch ic r (c # cs, []) of
        [] \<Rightarrow> search ic r cs
      | (rest, caps) # _ \<Rightarrow>
          Some ((0, take (length (c # cs) - length rest) (c # cs)) # caps))"

text \<open>\<^verbatim>\<open>match[k]\<close>: the text of group \<open>k\<close>, or \<^verbatim>\<open>undefined\<close>.\<close>

definition group :: "captures \<Rightarrow> nat \<Rightarrow> string option" where
  "group m k = map_of m k"

text \<open>An alternation of literal words, tried from left to right.\<close>

fun alts :: "string list \<Rightarrow> regex" where
  "alts [] = Lit []"
| "alts [w] = Lit w"
| "alts (w # v # ws) = Alt (Lit w) (alts (v # ws))"

section \<open>lib/schema.ts: the canonical record\<close>

text \<open>
  The record types of the schema. A field the schema marks optional is an \<open>option\<close>.
  Fields carry the name of their record as a prefix where two records of the source
  use the same field name. A JavaScript number is modelled as a rational.
\<close>

record Address =
  street :: "string option"
  city :: "string option"
  state :: "string option"
  postalCode :: "string option"
  country :: "string option"
  googleMapsUrl :: "string option"

record Hour =
  hour_day :: string
  hour_open :: string
  hour_close :: string

datatype dietary = Vegan | Veg | Gf | Spicy | Halal | Kosher

record MenuItem =
  item_name :: string
  item_description :: "string option"
  item_price :: "string option"
  item_image :: "string option"
  item_dietary :: "dietary list option"

record MenuCategory =
  category_name :: string
  category_items :: "MenuItem list"

record Review =
  review_source :: "string option"
  review_text :: string
  review_rating :: "rat option"
  review_author :: "string option"

record Social =
  social_instagram :: "string option"
  social_facebook :: "string option"
  social_tiktok :: "string option"
  social_x :: "string option"

record Section =
  section_title :: string
  section_body :: string
  section_image :: "string option"

record Theme =
  primary :: string
  accent :: string
  heroOverlay :: string

record RestaurantSite =
  slug :: string
  name :: string
  tagline :: "string option"
  heroImage :: "string option"
  logo :: "string option"
  phone :: "string option"
  email :: "string option"
  address :: "Address option"
  hours :: "Hour list option"
  reservationUrl :: "string option"
  orderOnlineUrl :: "string option"
  social :: "Social option"
  sections :: "Section list option"
  reviews :: "Review list option"
  menu :: "MenuCategory list option"
  images :: "string list option"
  theme :: Theme
  sourceUrl :: string
  lastScrapedAt :: string

text \<open>The defaults of the schema's \<^verbatim>\<open>theme\<close>.\<close>

definition default_theme :: Theme where
  "default_theme =
     \<lparr>primary = ''#b91c1c'', accent = ''#111827'', heroOverlay = ''rgba(0,0,0,0.35)''\<rparr>"

text \<open>The bound of the schema on a review: \<^verbatim>\<open>z.number().min(1).max(5).optional()\<close>.\<close>

definition rating_ok :: "rat option \<Rightarrow> bool" where
  "rating_ok r = (case r of None \<Rightarrow> True | Some v \<Rightarrow> 1 \<le> v \<and> v \<le> 5)"

section \<open>lib/scrape.ts: the raw record\<close>

record ScrapedAddress =
  sa_street :: "string option"
  sa_city :: "string option"
  sa_state :: "string option"
  sa_postalCode :: "string option"
  sa_country :: "string option"

record ScrapedItem =
  si_name :: string
  si_description :: "string option"
  si_price :: "string option"
  si_image :: "string option"

record ScrapedCategory =
  sc_name :: string
  sc_items :: "ScrapedItem list"

record ScrapedData =
  sd_name :: "string option"
  sd_tagline :: "string option"
  sd_phone :: "string option"
  sd_email :: "string option"
  sd_address :: "ScrapedAddress option"
  sd_hours :: "string option"
  sd_heroImage :: "string option"
  sd_logo :: "string option"
  sd_images :: "string list"
  sd_sections :: "Section list"
  sd_menu :: "ScrapedCategory list"
  sd_social :: Social
  sd_reviews :: "Review list"

section \<open>lib/normalize.ts\<close>

text \<open>What a function of the repository can throw.\<close>

datatype error = TypeError | SyntaxError | ZodError | Error string

text \<open>
  \<^verbatim>\<open>(monday|tuesday|...|sun)\<close>, in the order of the source: the full names before
  the short ones.
\<close>

definition day_rx :: regex where
  "day_rx = alts [''monday'', ''tuesday'', ''wednesday'', ''thursday'', ''friday'',
     ''saturday'', ''sunday'', ''mon'', ''tue'', ''wed'', ''thu'', ''fri'', ''sat'', ''sun'']"

text \<open>
  \<^verbatim>\<open>\d{1,2}:\d{2}\s*(am|pm)?\<close>, the inner group numbered \<open>g\<close>: one or two
  digits, a colon and two digits are required.
\<close>

definition time_rx :: "nat \<Rightarrow> regex" where
  "time_rx g =
     Seq (Atom is_digit) (Seq (Opt (Atom is_digit)) (Seq (Lit '':'')
       (Seq (Atom is_digit) (Seq (Atom is_digit) (Seq (Star (Atom is_space))
         (Opt (Group g (Alt (Lit ''am'') (Lit ''pm'')))))))))"

text \<open>The classes \<^verbatim>\<open>[\s:]\<close> and \<^verbatim>\<open>[\s-]\<close>.\<close>

definition space_or_colon :: "char \<Rightarrow> bool" where
  "space_or_colon c = (is_space c \<or> c = CHR '':'')"

definition space_or_hyphen :: "char \<Rightarrow> bool" where
  "space_or_hyphen c = (is_space c \<or> c = CHR ''-'')"

text \<open>The first pattern: a day, a time, a time.\<close>

definition day_pattern :: regex where
  "day_pattern =
     Seq (Group 1 day_rx) (Seq (Star (Atom space_or_colon))
       (Seq (Group 2 (time_rx 3)) (Seq (Star (Atom space_or_hyphen))
         (Group 4 (time_rx 5)))))"

text \<open>The second pattern: a day, a day, a time, a time.\<close>

definition range_pattern :: regex where
  "range_pattern =
     Seq (Group 1 day_rx) (Seq (Star (Atom space_or_hyphen))
       (Seq (Group 2 day_rx) (Seq (Star (Atom space_or_colon))
         (Seq (Group 3 (time_rx 4)) (Seq (Star (Atom space_or_hyphen))
           (Group 5 (time_rx 6)))))))"

definition patterns :: "regex list" where
  "patterns = [day_pattern, range_pattern]"

text \<open>Both branches of \<^verbatim>\<open>normalizeTime\<close> return the trimmed, lower-cased text.\<close>

definition normalizeTime :: "string \<Rightarrow> string" where
  "normalizeTime time = toLowerCase (trim time)"

text \<open>\<^verbatim>\<open>day.charAt(0).toUpperCase() + day.slice(1)\<close>.\<close>

fun capitalize :: "string \<Rightarrow> string" where
  "capitalize [] = []"
| "capitalize (c # cs) = upper_char c # cs"

text \<open>
  The inner loop of \<^verbatim>\<open>parseHours\<close> over the patterns, for one line: the first
  pattern that matches with a truthy \<^verbatim>\<open>open\<close> and \<^verbatim>\<open>close\<close> gives the
  entry and ends the loop; a line no pattern accepts gives none. Both patterns read
  groups 1 to 5. \<^verbatim>\<open>match[1].toLowerCase()\<close> throws when group 1 is undefined.
\<close>

fun match_line :: "regex list \<Rightarrow> string \<Rightarrow> error + Hour option" where
  "match_line [] line = Inr None"
| "match_line (pattern # rest) line =
     (case search True pattern line of
        None \<Rightarrow> match_line rest line
      | Some m \<Rightarrow>
          (case group m 1 of
             None \<Rightarrow> Inl TypeError
           | Some d \<Rightarrow>
               (let day = toLowerCase d;
                    opn = or_else (group m 2) (group m 3);
                    cls = or_else (group m 4) (group m 5)
                in case (opn, cls) of
                     (Some ot, Some ct) \<Rightarrow>
                       if ot \<noteq> [] \<and> ct \<noteq> []
                       then Inr (Some \<lparr>hour_day = capitalize day,
                                       hour_open = normalizeTime ot,
                                       hour_close = normalizeTime ct\<rparr>)
                       else match_line rest line
                   | _ \<Rightarrow> match_line rest line)))"

text \<open>The outer loop over the lines, with the entries pushed so far.\<close>

fun parse_lines :: "string list \<Rightarrow> Hour list \<Rightarrow> error + Hour list" where
  "parse_lines [] acc = Inr acc"
| "parse_lines (line # rest) acc =
     (case match_line patterns line of
        Inl e \<Rightarrow> Inl e
      | Inr None \<Rightarrow> parse_lines rest acc
      | Inr (Some h) \<Rightarrow> parse_lines rest (acc @ [h]))"

text \<open>\<^verbatim>\<open>split('\n')\<close>: an input without the separator is one piece.\<close>

fun split_on :: "char \<Rightarrow> string \<Rightarrow> string list" where
  "split_on d [] = [[]]"
| "split_on d (c # cs) =
     (if c = d then [] # split_on d cs
      else (case split_on d cs of [] \<Rightarrow> [[c]] | w # ws \<Rightarrow> (c # w) # ws))"

definition parseHours :: "string option \<Rightarrow> error + Hour list option" where
  "parseHours hoursString =
     (case hoursString of
        None \<Rightarrow> Inr None
      | Some text \<Rightarrow>
          if text = [] then Inr None
          else (case parse_lines (filter (\<lambda>line. line \<noteq> []) (map trim (split_on CHR 0x0A text))) [] of
                  Inl e \<Rightarrow> Inl e
                | Inr hs \<Rightarrow> Inr (if 0 < length hs then Some hs else None)))"

text \<open>
  \<^verbatim>\<open>normalizeRestaurantData\<close>. The clock is a parameter: \<open>now\<close> is the text that
  \<^verbatim>\<open>new Date().toISOString()\<close> gives during the call.
\<close>

definition normalize_address :: "ScrapedAddress \<Rightarrow> Address" where
  "normalize_address a =
     \<lparr>street = sa_street a, city = sa_city a, state = sa_state a,
      postalCode = sa_postalCode a, country = sa_country a, googleMapsUrl = None\<rparr>"

definition normalize_item :: "ScrapedItem \<Rightarrow> MenuItem" where
  "normalize_item i =
     \<lparr>item_name = si_name i, item_description = si_description i, item_price = si_price i,
      item_image = si_image i, item_dietary = None\<rparr>"

definition normalize_category :: "ScrapedCategory \<Rightarrow> MenuCategory" where
  "normalize_category c =
     \<lparr>category_name = sc_name c, category_items = map normalize_item (sc_items c)\<rparr>"

definition normalize_section :: "Section \<Rightarrow> Section" where
  "normalize_section s =
     \<lparr>section_title = section_title s, section_body = section_body s,
      section_image = section_image s\<rparr>"

definition normalize_review :: "Review \<Rightarrow> Review" where
  "normalize_review r =
     \<lparr>review_source = review_source r, review_text = review_text r,
      review_rating = review_rating r, review_author = review_author r\<rparr>"

definition normalizeRestaurantData ::
  "url_parser \<Rightarrow> string \<Rightarrow> ScrapedData \<Rightarrow> string \<Rightarrow> error + RestaurantSite" where
  "normalizeRestaurantData new_URL now scrapedData srcUrl =
     (case parseHours (sd_hours scrapedData) of
        Inl e \<Rightarrow> Inl e
      | Inr hrs \<Rightarrow>
          Inr \<lparr>slug = createSlugFromUrl new_URL srcUrl,
               name = (case sd_name scrapedData of
                         None \<Rightarrow> ''Restaurant''
                       | Some n \<Rightarrow> if n = [] then ''Restaurant'' else n),
               tagline = sd_tagline scrapedData,
               heroImage = sd_heroImage scrapedData,
               logo = sd_logo scrapedData,
               phone = sd_phone scrapedData,
               email = sd_email scrapedData,
               address = map_option normalize_address (sd_address scrapedData),
               hours = hrs,
               reservationUrl = None,
               orderOnlineUrl = None,
               social = Some (sd_social scrapedData),
               sections = Some (map normalize_section (sd_sections scrapedData)),
               reviews = Some (map normalize_review (sd_reviews scrapedData)),
               menu = Some (map normalize_category (sd_menu scrapedData)),
               images = Some (sd_images scrapedData),
               theme = default_theme,
               sourceUrl = srcUrl,
               lastScrapedAt = now\<rparr>)"

section \<open>Validation against the schema\<close>

text \<open>
  The value that \<^verbatim>\<open>JSON.parse\<close> returns. An object is the list of its keys with
  their values; a key is looked up from the left.
\<close>

datatype json =
    JNull
  | JBool bool
  | JNum rat
  | JStr string
  | JArr "json list"
  | JObj "(string \<times> json) list"

text \<open>The value under a key of an object; \<open>None\<close> is \<^verbatim>\<open>undefined\<close>.\<close>

definition field :: "(string \<times> json) list \<Rightarrow> string \<Rightarrow> json option" where
  "field kv k = map_of kv k"

text \<open>
  The validators of the schema library, each giving the parsed value or \<open>None\<close> where
  the library reports an issue. \<^verbatim>\<open>z.string()\<close> accepts strings only.
\<close>

fun z_string :: "json \<Rightarrow> string option" where
  "z_string (JStr s) = Some s"
| "z_string _ = None"

text \<open>\<^verbatim>\<open>z.string().url()\<close>: a string that the platform's URL constructor accepts.\<close>

fun z_url :: "url_parser \<Rightarrow> json \<Rightarrow> string option" where
  "z_url new_URL (JStr s) = (case new_URL s of None \<Rightarrow> None | Some u \<Rightarrow> Some s)"
| "z_url new_URL _ = None"

text \<open>\<^verbatim>\<open>z.number().min(1).max(5)\<close>.\<close>

fun z_rating :: "json \<Rightarrow> rat option" where
  "z_rating (JNum v) = (if 1 \<le> v \<and> v \<le> 5 then Some v else None)"
| "z_rating _ = None"

text \<open>\<^verbatim>\<open>z.enum(["vegan","veg","gf","spicy","halal","kosher"])\<close>.\<close>

definition z_dietary :: "json \<Rightarrow> dietary option" where
  "z_dietary j =
     (case j of
        JStr s \<Rightarrow>
          map_of [(''vegan'', Vegan), (''veg'', Veg), (''gf'', Gf), (''spicy'', Spicy),
                  (''halal'', Halal), (''kosher'', Kosher)] s
      | _ \<Rightarrow> None)"

text \<open>\<^verbatim>\<open>.optional()\<close>: an absent key is accepted; \<^verbatim>\<open>null\<close> is not.\<close>

definition z_optional :: "(json \<Rightarrow> 'a option) \<Rightarrow> json option \<Rightarrow> 'a option option" where
  "z_optional v j = (case j of None \<Rightarrow> Some None | Some x \<Rightarrow> map_option Some (v x))"

text \<open>A key without \<^verbatim>\<open>.optional()\<close> must be there.\<close>

definition z_required :: "(json \<Rightarrow> 'a option) \<Rightarrow> json option \<Rightarrow> 'a option" where
  "z_required v j = (case j of None \<Rightarrow> None | Some x \<Rightarrow> v x)"

text \<open>\<^verbatim>\<open>.default(d)\<close>: an absent key gives the default.\<close>

definition z_default :: "(json \<Rightarrow> 'a option) \<Rightarrow> 'a \<Rightarrow> json option \<Rightarrow> 'a option" where
  "z_default v d j = (case j of None \<Rightarrow> Some d | Some x \<Rightarrow> v x)"

text \<open>\<^verbatim>\<open>z.array(t)\<close>: an array all of whose elements are accepted.\<close>

definition z_array :: "(json \<Rightarrow> 'a option) \<Rightarrow> json \<Rightarrow> 'a list option" where
  "z_array v j = (case j of JArr xs \<Rightarrow> those (map v xs) | _ \<Rightarrow> None)"

text \<open>
  \<^verbatim>\<open>z.object({...})\<close>: an object; keys the schema does not name are dropped, since
  only the named keys are read.
\<close>

definition z_Address :: "url_parser \<Rightarrow> json \<Rightarrow> Address option" where
  "z_Address new_URL j =
     (case j of
        JObj kv \<Rightarrow> do {
          st \<leftarrow> z_optional z_string (field kv ''street'');
          ci \<leftarrow> z_optional z_string (field kv ''city'');
          sa \<leftarrow> z_optional z_string (field kv ''state'');
          pc \<leftarrow> z_optional z_string (field kv ''postalCode'');
          co \<leftarrow> z_optional z_string (field kv ''country'');
          gm \<leftarrow> z_optional (z_url new_URL) (field kv ''googleMapsUrl'');
          Some \<lparr>street = st, city = ci, state = sa, postalCode = pc, country = co,
                googleMapsUrl = gm\<rparr> }
      | _ \<Rightarrow> None)"

definition z_Hour :: "json \<Rightarrow> Hour option" where
  "z_Hour j =
     (case j of
        JObj kv \<Rightarrow> do {
          d \<leftarrow> z_required z_string (field kv ''day'');
          opn \<leftarrow> z_required z_string (field kv ''open'');
          cls \<leftarrow> z_required z_string (field kv ''close'');
          Some \<lparr>hour_day = d, hour_open = opn, hour_close = cls\<rparr> }
      | _ \<Rightarrow> None)"

definition z_MenuItem :: "json \<Rightarrow> MenuItem option" where
  "z_MenuItem j =
     (case j of
        JObj kv \<Rightarrow> do {
          n \<leftarrow> z_required z_string (field kv ''name'');
          de \<leftarrow> z_optional z_string (field kv ''description'');
          pr \<leftarrow> z_optional z_string (field kv ''price'');
          im \<leftarrow> z_optional z_string (field kv ''image'');
          di \<leftarrow> z_optional (z_array z_dietary) (field kv ''dietary'');
          Some \<lparr>item_name = n, item_description = de, item_price = pr, item_image = im,
                item_dietary = di\<rparr> }
      | _ \<Rightarrow> None)"

definition z_MenuCategory :: "json \<Rightarrow> MenuCategory option" where
  "z_MenuCategory j =
     (case j of
        JObj kv \<Rightarrow> do {
          n \<leftarrow> z_required z_string (field kv ''name'');
          its \<leftarrow> z_required (z_array z_MenuItem) (field kv ''items'');
          Some \<lparr>category_name = n, category_items = its\<rparr> }
      | _ \<Rightarrow> None)"

definition z_Review :: "json \<Rightarrow> Review option" where
  "z_Review j =
     (case j of
        JObj kv \<Rightarrow> do {
          so \<leftarrow> z_optional z_string (field kv ''source'');
          te \<leftarrow> z_required z_string (field kv ''text'');
          ra \<leftarrow> z_optional z_rating (field kv ''rating'');
          au \<leftarrow> z_optional z_string (field kv ''author'');
          Some \<lparr>review_source = so, review_text = te, review_rating = ra,
                review_author = au\<rparr> }
      | _ \<Rightarrow> None)"

definition z_Social :: "url_parser \<Rightarrow> json \<Rightarrow> Social option" where
  "z_Social new_URL j =
     (case j of
        JObj kv \<Rightarrow> do {
          ig \<leftarrow> z_optional (z_url new_URL) (field kv ''instagram'');
          fb \<leftarrow> z_optional (z_url new_URL) (field kv ''facebook'');
          tt \<leftarrow> z_optional (z_url new_URL) (field kv ''tiktok'');
          tw \<leftarrow> z_optional (z_url new_URL) (field kv ''x'');
          Some \<lparr>social_instagram = ig, social_facebook = fb, social_tiktok = tt,
                social_x = tw\<rparr> }
      | _ \<Rightarrow> None)"

definition z_Section :: "json \<Rightarrow> Section option" where
  "z_Section j =
     (case j of
        JObj kv \<Rightarrow> do {
          ti \<leftarrow> z_required z_string (field kv ''title'');
          bo \<leftarrow> z_required z_string (field kv ''body'');
          im \<leftarrow> z_optional z_string (field kv ''image'');
          Some \<lparr>section_title = ti, section_body = bo, section_image = im\<rparr> }
      | _ \<Rightarrow> None)"

text \<open>
  The \<^verbatim>\<open>theme\<close> object: each colour has its default, and the whole object
  defaults to \<^verbatim>\<open>{}\<close>, which is then read through the same defaults.
\<close>

definition z_Theme_object :: "json \<Rightarrow> Theme option" where
  "z_Theme_object j =
     (case j of
        JObj kv \<Rightarrow> do {
          pr \<leftarrow> z_default z_string ''#b91c1c'' (field kv ''primary'');
          ac \<leftarrow> z_default z_string ''#111827'' (field kv ''accent'');
          ho \<leftarrow> z_default z_string ''rgba(0,0,0,0.35)'' (field kv ''heroOverlay'');
          Some \<lparr>primary = pr, accent = ac, heroOverlay = ho\<rparr> }
      | _ \<Rightarrow> None)"

definition z_Theme :: "json option \<Rightarrow> Theme option" where
  "z_Theme j = (case j of None \<Rightarrow> z_Theme_object (JObj []) | Some x \<Rightarrow> z_Theme_object x)"

text \<open>\<^verbatim>\<open>RestaurantSite.parse\<close>; \<open>None\<close> is the thrown \<^verbatim>\<open>ZodError\<close>.\<close>

definition z_RestaurantSite :: "url_parser \<Rightarrow> json \<Rightarrow> RestaurantSite option" where
  "z_RestaurantSite new_URL j =
     (case j of
        JObj kv \<Rightarrow> do {
          sl \<leftarrow> z_required z_string (field kv ''slug'');
          na \<leftarrow> z_required z_string (field kv ''name'');
          ta \<leftarrow> z_optional z_string (field kv ''tagline'');
          he \<leftarrow> z_optional z_string (field kv ''heroImage'');
          lo \<leftarrow> z_optional z_string (field kv ''logo'');
          ph \<leftarrow> z_optional z_string (field kv ''phone'');
          em \<leftarrow> z_optional z_string (field kv ''email'');
          ad \<leftarrow> z_optional (z_Address new_URL) (field kv ''address'');
          ho \<leftarrow> z_optional (z_array z_Hour) (field kv ''hours'');
          re \<leftarrow> z_optional (z_url new_URL) (field kv ''reservationUrl'');
          oo \<leftarrow> z_optional (z_url new_URL) (field kv ''orderOnlineUrl'');
          so \<leftarrow> z_optional (z_Social new_URL) (field kv ''social'');
          se \<leftarrow> z_optional (z_array z_Section) (field kv ''sections'');
          rv \<leftarrow> z_optional (z_array z_Review) (field kv ''reviews'');
          me \<leftarrow> z_optional (z_array z_MenuCategory) (field kv ''menu'');
          im \<leftarrow> z_optional (z_array z_string) (field kv ''images'');
          th \<leftarrow> z_Theme (field kv ''theme'');
          su \<leftarrow> z_required (z_url new_URL) (field kv ''sourceUrl'');
          la \<leftarrow> z_required z_string (field kv ''lastScrapedAt'');
          Some \<lparr>slug = sl, name = na, tagline = ta, heroImage = he, logo = lo, phone = ph,
                email = em, address = ad, hours = ho, reservationUrl = re,
                orderOnlineUrl = oo, social = so, sections = se, reviews = rv, menu = me,
                images = im, theme = th, sourceUrl = su, lastScrapedAt = la\<rparr> }
      | _ \<Rightarrow> None)"

section \<open>lib/rewrite.ts\<close>

text \<open>
  What the call to the content model gives: the call throws (network, time-out, refusal
  of the service), or it returns and \<^verbatim>\<open>response.choices[0]?.message?.content\<close>
  is a string or is missing. The request is a fixed instruction followed by the
  serialized input record, so the service is a function of that record.
\<close>

datatype completion = ApiFailure | Completion "string option"

type_synonym content_model = "RestaurantSite \<Rightarrow> completion"

type_synonym json_parser = "string \<Rightarrow> json option"

text \<open>
  The body of the \<^verbatim>\<open>try\<close> block. \<^verbatim>\<open>JSON.parse\<close> belongs to the platform
  and is a parameter; it gives \<open>None\<close> where it throws its \<^verbatim>\<open>SyntaxError\<close>.
\<close>

definition rewrite_attempt ::
  "content_model \<Rightarrow> json_parser \<Rightarrow> url_parser \<Rightarrow> RestaurantSite \<Rightarrow> error + RestaurantSite" where
  "rewrite_attempt chat JSON_parse new_URL raw =
     (case chat raw of
        ApiFailure \<Rightarrow> Inl (Error ''request failed'')
      | Completion None \<Rightarrow> Inl (Error ''No content returned from OpenAI'')
      | Completion (Some content) \<Rightarrow>
          if content = [] then Inl (Error ''No content returned from OpenAI'')
          else (case JSON_parse content of
                  None \<Rightarrow> Inl SyntaxError
                | Some cleaned \<Rightarrow>
                    (case z_RestaurantSite new_URL cleaned of
                       None \<Rightarrow> Inl ZodError
                     | Some validated \<Rightarrow> Inr validated)))"

text \<open>
  \<^verbatim>\<open>rewriteContent\<close>. The first argument is the value of the environment variable
  \<^verbatim>\<open>OPENAI_API_KEY\<close>. The result is the returned record with the list of
  requests sent to the content model. The \<^verbatim>\<open>catch\<close> block returns the input.
\<close>

definition rewriteContent ::
  "string option \<Rightarrow> content_model \<Rightarrow> json_parser \<Rightarrow> url_parser \<Rightarrow> RestaurantSite
     \<Rightarrow> RestaurantSite \<times> RestaurantSite list" where
  "rewriteContent api_key chat JSON_parse new_URL raw =
     (if truthy api_key
      then (case rewrite_attempt chat JSON_parse new_URL raw of
              Inr validated \<Rightarrow> (validated, [raw])
            | Inl e \<Rightarrow> (raw, [raw]))
      else (raw, []))"

section \<open>lib/images.ts\<close>

text \<open>
  What \<^verbatim>\<open>fetch(url)\<close> gives: the request or the reading of the body throws, or
  a response arrives with its HTTP status; \<^verbatim>\<open>response.ok\<close> is a status from
  200 to 299. The network is a function of the address. The file system is the
  predicate \<open>fs_ok\<close>: whether the directory can be made and the file written for a
  public path.
\<close>

datatype fetch_result = NetworkError | Response nat

type_synonym network = "string \<Rightarrow> fetch_result"

definition response_ok :: "fetch_result \<Rightarrow> bool" where
  "response_ok r = (case r of NetworkError \<Rightarrow> False | Response st \<Rightarrow> 200 \<le> st \<and> st \<le> 299)"

text \<open>\<^verbatim>\<open>path.basename\<close>: the last component, slashes at the end ignored.\<close>

definition basename :: "string \<Rightarrow> string" where
  "basename p =
     rev (takeWhile (\<lambda>c. c \<noteq> CHR ''/'') (dropWhile (\<lambda>c. c = CHR ''/'') (rev p)))"

text \<open>
  \<^verbatim>\<open>filename || path.basename(new URL(url).pathname) || 'image.jpg'\<close>; the URL
  is parsed only when no file name is given, and \<open>None\<close> is its \<^verbatim>\<open>TypeError\<close>.
\<close>

definition finalFilename :: "url_parser \<Rightarrow> string \<Rightarrow> string option \<Rightarrow> string option" where
  "finalFilename new_URL url filename =
     (if truthy filename then filename
      else (case new_URL url of
              None \<Rightarrow> None
            | Some u \<Rightarrow>
                Some (if basename (pathname u) = [] then ''image.jpg''
                      else basename (pathname u))))"

definition public_path :: "string \<Rightarrow> string \<Rightarrow> string" where
  "public_path slg file = ''/_imports/'' @ slg @ ''/'' @ file"

text \<open>
  \<^verbatim>\<open>downloadImage\<close>: every error inside the \<^verbatim>\<open>try\<close> block ends in the
  \<^verbatim>\<open>catch\<close> block, which returns \<^verbatim>\<open>null\<close>.
\<close>

definition downloadImage ::
  "network \<Rightarrow> (string \<Rightarrow> bool) \<Rightarrow> url_parser \<Rightarrow> string \<Rightarrow> string \<Rightarrow> string option
     \<Rightarrow> string option" where
  "downloadImage fetch fs_ok new_URL url slg filename =
     (case finalFilename new_URL url filename of
        None \<Rightarrow> None
      | Some file \<Rightarrow>
          if response_ok (fetch url) \<and> fs_ok (public_path slg file)
          then Some (public_path slg file)
          else None)"

text \<open>
  A reference is remote when it is a non-empty string that does not start with a slash:
  \<^verbatim>\<open>x && !x.startsWith('/')\<close>.
\<close>

definition is_remote :: "string \<Rightarrow> bool" where
  "is_remote u = (u \<noteq> [] \<and> \<not> startsWith u ''/'')"

text \<open>
  The step repeated for each of the four kinds of reference: a remote reference is
  downloaded under the given file name, and replaced only when a path comes back.
\<close>

definition localize ::
  "network \<Rightarrow> (string \<Rightarrow> bool) \<Rightarrow> url_parser \<Rightarrow> string \<Rightarrow> string \<Rightarrow> string option
     \<Rightarrow> string option" where
  "localize fetch fs_ok new_URL slg file img =
     (case img of
        None \<Rightarrow> None
      | Some u \<Rightarrow>
          if is_remote u
          then (case downloadImage fetch fs_ok new_URL u slg (Some file) of
                  Some localPath \<Rightarrow> Some localPath
                | None \<Rightarrow> Some u)
          else Some u)"

text \<open>The loop over the items of a category.\<close>

fun download_items ::
  "network \<Rightarrow> (string \<Rightarrow> bool) \<Rightarrow> url_parser \<Rightarrow> string \<Rightarrow> MenuItem list \<Rightarrow> MenuItem list" where
  "download_items fetch fs_ok new_URL slg [] = []"
| "download_items fetch fs_ok new_URL slg (item # rest) =
     item\<lparr>item_image :=
            localize fetch fs_ok new_URL slg (slugify (item_name item) @ ''.jpg'')
              (item_image item)\<rparr>
     # download_items fetch fs_ok new_URL slg rest"

text \<open>The loop over the categories of the menu.\<close>

fun download_menu ::
  "network \<Rightarrow> (string \<Rightarrow> bool) \<Rightarrow> url_parser \<Rightarrow> string \<Rightarrow> MenuCategory list
     \<Rightarrow> MenuCategory list" where
  "download_menu fetch fs_ok new_URL slg [] = []"
| "download_menu fetch fs_ok new_URL slg (category # rest) =
     category\<lparr>category_items :=
                download_items fetch fs_ok new_URL slg (category_items category)\<rparr>
     # download_menu fetch fs_ok new_URL slg rest"

text \<open>The loop over the sections.\<close>

fun download_sections ::
  "network \<Rightarrow> (string \<Rightarrow> bool) \<Rightarrow> url_parser \<Rightarrow> string \<Rightarrow> Section list \<Rightarrow> Section list" where
  "download_sections fetch fs_ok new_URL slg [] = []"
| "download_sections fetch fs_ok new_URL slg (sec # rest) =
     sec\<lparr>section_image :=
           localize fetch fs_ok new_URL slg (slugify (section_title sec) @ ''.jpg'')
             (section_image sec)\<rparr>
     # download_sections fetch fs_ok new_URL slg rest"

text \<open>
  \<^verbatim>\<open>downloadAllImages\<close>: the returned object is a copy of the input with the hero
  image and the logo replaced. The two loops assign to the item and section objects of
  the input in place; the copy shares them, so it shows the menu and the sections as
  the loops left them.
\<close>

definition downloadAllImages ::
  "network \<Rightarrow> (string \<Rightarrow> bool) \<Rightarrow> url_parser \<Rightarrow> RestaurantSite \<Rightarrow> string \<Rightarrow> RestaurantSite" where
  "downloadAllImages fetch fs_ok new_URL site slg =
     site\<lparr>heroImage := localize fetch fs_ok new_URL slg ''hero.jpg'' (heroImage site),
          logo := localize fetch fs_ok new_URL slg ''logo.jpg'' (logo site),
          menu := map_option (download_menu fetch fs_ok new_URL slg) (menu site),
          sections := map_option (download_sections fetch fs_ok new_URL slg) (sections site)\<rparr>"

section \<open>lib/scrape.ts: reviews\<close>

text \<open>
  The parsed page: text nodes and elements with their tag, their classes and their
  children.
\<close>

datatype node = Text string | Element string "string list" "node list"

text \<open>\<^verbatim>\<open>.text()\<close> of one node: the text of all text nodes below it, in order.\<close>

fun node_text :: "node \<Rightarrow> string" where
  "node_text (Text t) = t"
| "node_text (Element tag classes kids) = concat (map node_text kids)"

text \<open>The elements below a node, in document order, the node itself left out.\<close>

fun descendants :: "node \<Rightarrow> node list" where
  "descendants (Text t) = []"
| "descendants (Element tag classes kids) =
     concat (map (\<lambda>k. (case k of Text t \<Rightarrow> [] | Element _ _ _ \<Rightarrow> [k]) @ descendants k) kids)"

fun has_class :: "string list \<Rightarrow> node \<Rightarrow> bool" where
  "has_class cs (Text t) = False"
| "has_class cs (Element tag classes kids) = (\<exists>c \<in> set cs. c \<in> set classes)"

text \<open>
  \<^verbatim>\<open>$(selector)\<close> for a list of class selectors, over the whole page, and
  \<^verbatim>\<open>.find(selector)\<close> below one element.
\<close>

definition select_all :: "string list \<Rightarrow> node list \<Rightarrow> node list" where
  "select_all cs page = filter (has_class cs) (descendants (Element ''#root'' [] page))"

definition find_in :: "string list \<Rightarrow> node \<Rightarrow> node list" where
  "find_in cs el = filter (has_class cs) (descendants el)"

definition selection_text :: "node list \<Rightarrow> string" where
  "selection_text els = concat (map node_text els)"

text \<open>
  \<^verbatim>\<open>parseInt\<close> on a string of decimal digits. Beyond \<open>2\<^sup>5\<^sup>3\<close> the language
  rounds; the model keeps the exact number.
\<close>

definition digit_value :: "char \<Rightarrow> nat" where
  "digit_value c = of_char c - 48"

definition parseInt :: "string \<Rightarrow> nat" where
  "parseInt ds = foldl (\<lambda>n c. 10 * n + digit_value c) 0 ds"

text \<open>\<^verbatim>\<open>/\d+/\<close>.\<close>

definition digits_rx :: regex where
  "digits_rx = Seq (Atom is_digit) (Star (Atom is_digit))"

text \<open>The body of the callback of \<^verbatim>\<open>.each\<close>, for one matched element.\<close>

definition review_of :: "node \<Rightarrow> Review list" where
  "review_of el =
     (let text = trim (node_text el);
          rating = (case search False digits_rx (selection_text (find_in [''rating'', ''stars''] el)) of
                      None \<Rightarrow> None
                    | Some m \<Rightarrow> group m 0);
          author = trim (selection_text (find_in [''author'', ''name''] el))
      in if text \<noteq> [] \<and> 20 < length text
         then [\<lparr>review_source = None,
                review_text = text,
                review_rating = (if truthy rating
                                 then map_option (\<lambda>r. of_nat (parseInt r)) rating
                                 else None),
                review_author = (if author = [] then None else Some author)\<rparr>]
         else [])"

text \<open>\<^verbatim>\<open>extractReviews\<close>: the four selectors in turn, each over the whole page.\<close>

definition reviewSelectors :: "string list" where
  "reviewSelectors = [''review'', ''testimonial'', ''customer-review'', ''rating'']"

definition extractReviews :: "node list \<Rightarrow> Review list" where
  "extractReviews page =
     concat (map (\<lambda>selector. concat (map review_of (select_all [selector] page)))
                 reviewSelectors)"

section \<open>scripts/scrape.ts: the pipeline\<close>

text \<open>Everything the pipeline takes from outside the repository.\<close>

record platform =
  pf_new_URL :: url_parser
  pf_clock :: string
  pf_api_key :: "string option"
  pf_chat :: content_model
  pf_JSON_parse :: json_parser
  pf_fetch :: network
  pf_fs_ok :: "string \<Rightarrow> bool"

text \<open>
  The steps of \<^verbatim>\<open>main\<close> after scraping: normalize, rewrite when \<^verbatim>\<open>--ai\<close>
  is given, localize the images. The result is the record that is serialized into the
  content file of the slug.
\<close>

definition build_artifact :: "platform \<Rightarrow> bool \<Rightarrow> ScrapedData \<Rightarrow> string \<Rightarrow> error + RestaurantSite" where
  "build_artifact pf useAI scrapedData url =
     (case normalizeRestaurantData (pf_new_URL pf) (pf_clock pf) scrapedData url of
        Inl e \<Rightarrow> Inl e
      | Inr normalizedData \<Rightarrow>
          (let finalData =
                 (if useAI
                  then fst (rewriteContent (pf_api_key pf) (pf_chat pf) (pf_JSON_parse pf)
                              (pf_new_URL pf) normalizedData)
                  else normalizedData)
           in Inr (downloadAllImages (pf_fetch pf) (pf_fs_ok pf) (pf_new_URL pf) finalData
                     (createSlugFromUrl (pf_new_URL pf) url))))"

section \<open>Notions used in the statements\<close>

text \<open>
  How one image reference must come out of the localizer, given the reference \<open>img\<close>
  that went in and the file name chosen for it: a remote reference whose request fails
  (an error of the network or a status outside 200 to 299) is kept, and one whose
  download succeeds becomes the public path.
\<close>

definition ref_localized ::
  "network \<Rightarrow> (string \<Rightarrow> bool) \<Rightarrow> string \<Rightarrow> string \<Rightarrow> string option \<Rightarrow> string option \<Rightarrow> bool" where
  "ref_localized fetch fs_ok slg file img img' =
     (case img of
        None \<Rightarrow> True
      | Some u \<Rightarrow>
          (is_remote u \<and> \<not> response_ok (fetch u) \<longrightarrow> img' = Some u) \<and>
          (is_remote u \<and> response_ok (fetch u) \<and> fs_ok (public_path slg file)
             \<longrightarrow> img' = Some (public_path slg file)))"

text \<open>
  A reference that is absent stays absent, and one that is not remote (it starts with a
  slash, or it is empty) stays as it is.
\<close>

definition local_untouched :: "string option \<Rightarrow> string option \<Rightarrow> bool" where
  "local_untouched img img' =
     (case img of
        None \<Rightarrow> img' = None
      | Some u \<Rightarrow> if is_remote u then True else img' = Some u)"

section \<open>Sample inputs\<close>

text \<open>A raw record with every optional part absent and every list empty.\<close>

definition empty_scrape :: ScrapedData where
  "empty_scrape =
     \<lparr>sd_name = None, sd_tagline = None, sd_phone = None, sd_email = None,
      sd_address = None, sd_hours = None, sd_heroImage = None, sd_logo = None,
      sd_images = [], sd_sections = [], sd_menu = [],
      sd_social = \<lparr>social_instagram = None, social_facebook = None, social_tiktok = None,
                    social_x = None\<rparr>,
      sd_reviews = []\<rparr>"

text \<open>A canonical record for the site \<^verbatim>\<open>https://example.com\<close>.\<close>

definition sample_site :: RestaurantSite where
  "sample_site =
     \<lparr>slug = ''examplecom'', name = ''Restaurant'', tagline = None, heroImage = None,
      logo = None, phone = None, email = None, address = None, hours = None,
      reservationUrl = None, orderOnlineUrl = None, social = None, sections = None,
      reviews = None, menu = None, images = None, theme = default_theme,
      sourceUrl = ''https://example.com'', lastScrapedAt = ''2025-01-01T00:00:00.000Z''\<rparr>"

text \<open>
  A response of the content model that passes the schema but carries another slug, as
  text and as the value \<^verbatim>\<open>JSON.parse\<close> gives for it.
\<close>

definition renamed_content :: string where
  \<open>renamed_content =
     ''{"slug":"other","name":"Restaurant","sourceUrl":"https://example.com","lastScrapedAt":"2025-01-01T00:00:00.000Z"}''\<close>

definition renamed_json :: json where
  "renamed_json =
     JObj [(''slug'', JStr ''other''), (''name'', JStr ''Restaurant''),
           (''sourceUrl'', JStr ''https://example.com''),
           (''lastScrapedAt'', JStr ''2025-01-01T00:00:00.000Z'')]"

definition renaming_model :: content_model where
  "renaming_model r = Completion (Some renamed_content)"

definition renamed_parser :: json_parser where
  "renamed_parser c = (if c = renamed_content then Some renamed_json else None)"

text \<open>A content model that answers with prose, which is not JSON.\<close>

definition refusing_model :: content_model where
  "refusing_model r = Completion (Some ''Sorry, I cannot do that.'')"

definition prose_parser :: json_parser where
  "prose_parser c = None"

definition failing_model :: content_model where
  "failing_model r = ApiFailure"

definition no_network :: network where
  "no_network u = NetworkError"

text \<open>
  A record with five remote images: hero, logo, two dishes and one section. The network
  answers 404 for the logo and 200 for everything else.
\<close>

definition five_images :: RestaurantSite where
  "five_images =
     sample_site
       \<lparr>heroImage := Some ''https://example.com/img/front.png'',
        logo := Some ''https://example.com/img/logo.png'',
        menu := Some [\<lparr>category_name = ''Mains'',
                 category_items =
                   [\<lparr>item_name = ''Beef Chow Mein'', item_description = None,
                     item_price = Some ''12.50'',
                     item_image = Some ''https://example.com/img/a.png'',
                     item_dietary = None\<rparr>,
                    \<lparr>item_name = ''Won Ton Soup'', item_description = None,
                     item_price = None,
                     item_image = Some ''https://example.com/img/b.png'',
                     item_dietary = None\<rparr>]\<rparr>],
        sections := Some [\<lparr>section_title = ''Our Story'', section_body = ''Since 1938.'',
                     section_image = Some ''https://example.com/img/story.png''\<rparr>]\<rparr>"

definition logo_missing :: network where
  "logo_missing u = (if u = ''https://example.com/img/logo.png'' then Response 404 else Response 200)"

definition disk_ok :: "string \<Rightarrow> bool" where
  "disk_ok p = True"

text \<open>
  A page with one review whose rating element reads \<^verbatim>\<open>10/10\<close>:
  \<^verbatim>\<open><div class="review">Best noodles in town, will return! <span class="rating">10/10</span></div>\<close>
\<close>

definition review_page :: "node list" where
  "review_page =
     [Element ''div'' [''review'']
        [Text ''Best noodles in town, will return! '',
         Element ''span'' [''rating''] [Text ''10/10'']]]"

text \<open>A platform without a key for the content model and without a network.\<close>

definition offline :: platform where
  "offline =
     \<lparr>pf_new_URL = web_URL, pf_clock = ''2025-01-01T00:00:00.000Z'', pf_api_key = None,
      pf_chat = failing_model, pf_JSON_parse = prose_parser,
      pf_fetch = no_network, pf_fs_ok = disk_ok\<rparr>"

section \<open>Properties\<close>

subsection \<open>Slug derivation\<close>

lemma createSlugFromUrl_parsed:
  "new_URL url = Some u \<Longrightarrow> createSlugFromUrl new_URL url = slugify (strip_www (hostname u))"
  by (simp add: createSlugFromUrl_def)

text \<open>
  The slug depends on the input only through the host name without one leading
  \<^verbatim>\<open>www.\<close>, whatever the protocol, the port or the path.
\<close>

lemma createSlugFromUrl_host_invariant:
  "new_URL u1 = Some a \<Longrightarrow> new_URL u2 = Some b \<Longrightarrow>
   strip_www (hostname a) = strip_www (hostname b) \<Longrightarrow>
   createSlugFromUrl new_URL u1 = createSlugFromUrl new_URL u2"
  by (simp add: createSlugFromUrl_def)

lemmas char_class_defs =
  is_digit_def is_word_def is_space_def is_sep_def keeps_def is_host_char_def
  is_path_char_def lower_char_def upper_char_def

lemmas slug_defs =
  slugify_def strip_hyphens_def hyphenate_def remove_special_def toLowerCase_def
  strip_www_def

lemma web_URL_http_www_example:
  "web_URL ''http://www.example.com/'' =
     Some \<lparr>protocol = ''http:'', hostname = ''www.example.com'', pathname = ''/''\<rparr>"
  by (simp add: web_URL_def web_rest_def toLowerCase_def char_class_defs)

lemma web_URL_https_example:
  "web_URL ''https://example.com'' =
     Some \<lparr>protocol = ''https:'', hostname = ''example.com'', pathname = ''/''\<rparr>"
  by (simp add: web_URL_def web_rest_def toLowerCase_def char_class_defs)

lemma slugify_example_com: "slugify ''example.com'' = ''examplecom''"
  by (simp add: slug_defs char_class_defs)

text \<open>
  C3. The slug of \<^verbatim>\<open>http://www.example.com/\<close> and of
  \<^verbatim>\<open>https://example.com\<close> should be \<^verbatim>\<open>example-com\<close>. Both inputs
  do get the same slug, but it is \<^verbatim>\<open>examplecom\<close>: the first replacement of
  \<open>slugify\<close> deletes the dot of the host name before the second one could turn it
  into a hyphen.
\<close>

theorem createSlugFromUrl_example_drops_dot:
  "createSlugFromUrl web_URL ''http://www.example.com/'' = ''examplecom'' \<and>
   createSlugFromUrl web_URL ''https://example.com'' = ''examplecom'' \<and>
   createSlugFromUrl web_URL ''https://example.com'' \<noteq> ''example-com''"
  by (simp add: createSlugFromUrl_def web_URL_http_www_example web_URL_https_example
      slug_defs char_class_defs)

subsection \<open>Opening hours\<close>

text \<open>
  Captures only grow during a match, so a group that stands first in a sequence is
  defined in every match of the sequence; hence \<^verbatim>\<open>match[1]\<close> is a string for
  both patterns and \<open>parseHours\<close> never throws.
\<close>

lemma rmatch_extends:
  "st' \<in> set (rmatch ic a st) \<Longrightarrow> \<exists>pre. snd st' = pre @ snd st"
proof (induction ic a st arbitrary: st' rule: rmatch.induct)
  case (1 ic P s caps)
  then show ?case by (auto split: list.splits if_splits)
next
  case (2 ic l s caps)
  then show ?case by (auto split: option.splits)
next
  case (3 ic a b st)
  from "3.prems" obtain mid where m: "mid \<in> set (rmatch ic a st)" and r: "st' \<in> set (rmatch ic b mid)"
    by auto
  from "3.IH"(1)[OF m] obtain p1 where p1: "snd mid = p1 @ snd st" by blast
  from "3.IH"(2)[OF m r] obtain p2 where p2: "snd st' = p2 @ snd mid" by blast
  show ?case using p1 p2 by simp
next
  case (4 ic a b st)
  from "4.prems" have "st' \<in> set (rmatch ic a st) \<or> st' \<in> set (rmatch ic b st)" by simp
  then show ?case using "4.IH" by blast
next
  case (5 ic a s caps)
  from "5.prems" have "st' \<in> set (rmatch ic a (s, caps)) \<or> st' = (s, caps)" by auto
  then show ?case using "5.IH" by fastforce
next
  case (6 ic a s caps)
  from "6.prems" consider "st' = (s, caps)"
    | mid where "mid \<in> set (rmatch ic a (s, caps))" "length (fst mid) < length s"
        "st' \<in> set (rmatch ic (Star a) mid)"
    by (auto split: if_splits)
  then show ?case
  proof cases
    case 1
    then show ?thesis by simp
  next
    case 2
    from "6.IH"(1)[OF 2(1)] obtain p1 where p1: "snd mid = p1 @ caps" by auto
    from "6.IH"(2)[OF 2(1) 2(2) 2(3)] obtain p2 where p2: "snd st' = p2 @ snd mid" by blast
    show ?thesis using p1 p2 by simp
  qed
next
  case (7 ic n a s caps)
  from "7.prems" obtain r caps' where m: "(r, caps') \<in> set (rmatch ic a (s, caps))"
    and e: "st' = (r, (n, take (length s - length r) s) # caps')"
    by auto
  from "7.IH"[OF m] obtain p where "caps' = p @ caps" by auto
  then show ?case using e by simp
qed

lemma rmatch_group_first:
  assumes "st' \<in> set (rmatch ic (Seq (Group n a) b) st)"
  shows "map_of (snd st') n \<noteq> None"
proof -
  from assms obtain mid where m: "mid \<in> set (rmatch ic (Group n a) st)"
    and r: "st' \<in> set (rmatch ic b mid)" by auto
  from m obtain x where "n \<in> fst ` set (snd mid)" by (cases st) auto
  moreover from rmatch_extends[OF r] obtain pre where "snd st' = pre @ snd mid" by blast
  ultimately have "n \<in> fst ` set (snd st')" by auto
  then show ?thesis by (simp add: map_of_eq_None_iff)
qed

lemma rmatch_head_group_first:
  assumes "rmatch ic (Seq (Group n a) b) st = (rest, caps) # sts"
  shows "map_of caps n \<noteq> None"
proof -
  have "(rest, caps) \<in> set (rmatch ic (Seq (Group n a) b) st)"
    unfolding assms by simp
  from rmatch_group_first[OF this] show ?thesis by simp
qed

lemma search_group_first:
  "search ic (Seq (Group n a) b) s = Some m \<Longrightarrow> n \<noteq> 0 \<Longrightarrow> group m n \<noteq> None"
proof (induction s)
  case Nil
  show ?case
  proof (cases "rmatch ic (Seq (Group n a) b) ([], [])")
    case Nil
    then show ?thesis using Nil.prems by (simp del: rmatch.simps)
  next
    case (Cons st sts)
    obtain rest caps where st: "st = (rest, caps)" by (cases st)
    from rmatch_head_group_first[OF Cons[unfolded st]] have "map_of caps n \<noteq> None" .
    moreover have "m = (0, []) # caps"
      using Nil.prems(1) Cons st by (simp del: rmatch.simps)
    ultimately show ?thesis using Nil.prems(2) by (simp add: group_def)
  qed
next
  case (Cons c cs)
  show ?case
  proof (cases "rmatch ic (Seq (Group n a) b) (c # cs, [])")
    case Nil
    then show ?thesis using Cons by (simp del: rmatch.simps)
  next
    case (Cons st sts)
    obtain rest caps where st: "st = (rest, caps)" by (cases st)
    from rmatch_head_group_first[OF Cons[unfolded st]] have "map_of caps n \<noteq> None" .
    moreover have "m = (0, take (length (c # cs) - length rest) (c # cs)) # caps"
      using Cons.prems(1) Cons st by (simp del: rmatch.simps)
    ultimately show ?thesis using Cons.prems(2) by (simp add: group_def)
  qed
qed

lemma match_line_patterns_ok: "\<exists>r. match_line patterns line = Inr r"
proof -
  have g1: "\<And>m. search True day_pattern line = Some m \<Longrightarrow> group m 1 \<noteq> None"
    unfolding day_pattern_def by (rule search_group_first) simp_all
  have g2: "\<And>m. search True range_pattern line = Some m \<Longrightarrow> group m 1 \<noteq> None"
    unfolding range_pattern_def by (rule search_group_first) simp_all
  show ?thesis
    unfolding patterns_def
    using g1 g2
    by (auto simp: Let_def split: option.splits prod.splits)
qed

lemma parse_lines_ok: "\<exists>hs. parse_lines ls acc = Inr hs"
proof (induction ls arbitrary: acc)
  case Nil
  then show ?case by simp
next
  case (Cons l ls)
  from match_line_patterns_ok[of l] obtain r where "match_line patterns l = Inr r" by blast
  then show ?case using Cons by (cases r) auto
qed

lemma parseHours_ok: "\<exists>hs. parseHours h = Inr hs"
proof (cases h)
  case None
  then show ?thesis by (simp add: parseHours_def)
next
  case (Some t)
  obtain hs where "parse_lines (filter (\<lambda>line. line \<noteq> []) (map trim (split_on CHR 0x0A t))) [] = Inr hs"
    using parse_lines_ok by blast
  then show ?thesis using Some by (simp add: parseHours_def)
qed

lemmas hours_defs =
  parseHours_def patterns_def day_pattern_def range_pattern_def day_rx_def time_rx_def
  space_or_colon_def space_or_hyphen_def group_def or_else_def normalizeTime_def trim_def
  toLowerCase_def

text \<open>A line with minutes in both times is accepted, and the unmatched line is dropped.\<close>

lemma parseHours_with_minutes:
  "parseHours (Some ''Monday: 11:00am-10:00pm\<newline>Closed'') =
     Inr (Some [\<lparr>hour_day = ''Monday'', hour_open = ''11:00am'', hour_close = ''10:00pm''\<rparr>])"
  by (simp add: hours_defs char_class_defs)

text \<open>
  C4. On \<^verbatim>\<open>"Monday: 11am-10pm\nClosed"\<close> the parser should emit one entry, for
  Monday. It emits none and returns \<^verbatim>\<open>undefined\<close>: both patterns require each
  time to have a colon and two minute digits, which \<^verbatim>\<open>11am\<close> and
  \<^verbatim>\<open>10pm\<close> lack, although the comment above the first pattern gives this very
  line as its example.
\<close>

theorem parseHours_monday_line_rejected:
  "parseHours (Some ''Monday: 11am-10pm\<newline>Closed'') = Inr None"
  by (simp add: hours_defs char_class_defs)

subsection \<open>The normalizer\<close>

lemma normalizeRestaurantData_returns:
  "\<exists>s. normalizeRestaurantData new_URL now d u = Inr s"
proof -
  obtain hs where "parseHours (sd_hours d) = Inr hs" using parseHours_ok by blast
  then show ?thesis by (simp add: normalizeRestaurantData_def)
qed

text \<open>
  C7. Two runs of the normalizer on the same raw record and the same source URL, at
  two different times, both return, and the two records differ at most in
  \<open>lastScrapedAt\<close>.
\<close>

theorem normalizeRestaurantData_deterministic:
  "\<exists>s. normalizeRestaurantData new_URL now1 d u = Inr s \<and>
       normalizeRestaurantData new_URL now2 d u = Inr (s\<lparr>lastScrapedAt := now2\<rparr>)"
proof -
  obtain hs where "parseHours (sd_hours d) = Inr hs" using parseHours_ok by blast
  then show ?thesis by (simp add: normalizeRestaurantData_def)
qed


text \<open>
  C8 as stated: the normalizer fails exactly when the source URL cannot be parsed. It
  does not: \<^verbatim>\<open>not a url\<close> is rejected by the URL constructor, and the normalizer
  returns a record whose slug is made from the raw input.
\<close>

theorem normalize_unparseable_url_counterexample:
  "web_URL ''not a url'' = None \<and>
   normalizeRestaurantData web_URL ''2025-01-01T00:00:00.000Z'' empty_scrape ''not a url'' =
     Inr \<lparr>slug = ''not-a-url'', name = ''Restaurant'', tagline = None, heroImage = None,
          logo = None, phone = None, email = None, address = None, hours = None,
          reservationUrl = None, orderOnlineUrl = None,
          social = Some \<lparr>social_instagram = None, social_facebook = None,
                          social_tiktok = None, social_x = None\<rparr>,
          sections = Some [], reviews = Some [], menu = Some [], images = Some [],
          theme = default_theme, sourceUrl = ''not a url'',
          lastScrapedAt = ''2025-01-01T00:00:00.000Z''\<rparr>"
  by (simp add: web_URL_def normalizeRestaurantData_def parseHours_def empty_scrape_def
      createSlugFromUrl_def slug_defs char_class_defs)

text \<open>
  C8, amended. The normalizer never fails: not when optional content is missing (a
  missing or empty name gives the placeholder \<^verbatim>\<open>Restaurant\<close>), and not when the
  source URL cannot be parsed, where the slug is \<open>slugify\<close> of the raw input.
\<close>

theorem normalizeRestaurantData_never_fails:
  "\<exists>s. normalizeRestaurantData new_URL now d u = Inr s \<and>
       (\<not> truthy (sd_name d) \<longrightarrow> name s = ''Restaurant'') \<and>
       (new_URL u = None \<longrightarrow> slug s = slugify u)"
proof -
  obtain hs where "parseHours (sd_hours d) = Inr hs" using parseHours_ok by blast
  then show ?thesis
    by (cases "sd_name d") (auto simp: normalizeRestaurantData_def createSlugFromUrl_def)
qed

theorem normalizeRestaurantData_never_fails_witness:
  "\<not> truthy (sd_name empty_scrape) \<and> web_URL ''not a url'' = None \<and>
   (\<exists>s. normalizeRestaurantData web_URL ''2025-01-01T00:00:00.000Z'' empty_scrape ''not a url'' = Inr s
        \<and> name s = ''Restaurant'' \<and> slug s = slugify ''not a url'')"
proof -
  have n: "\<not> truthy (sd_name empty_scrape)" by (simp add: empty_scrape_def)
  have w: "web_URL ''not a url'' = None" by (simp add: web_URL_def)
  from normalizeRestaurantData_never_fails[of web_URL "''2025-01-01T00:00:00.000Z''" empty_scrape "''not a url''"]
  show ?thesis using n w by auto
qed

subsection \<open>The rewriter\<close>

lemma rewrite_attempt_rejected:
  assumes "chat raw = ApiFailure \<or> chat raw = Completion None \<or> chat raw = Completion (Some [])
     \<or> (\<exists>c. chat raw = Completion (Some c) \<and>
            (JSON_parse c = None \<or>
             (\<exists>j. JSON_parse c = Some j \<and> z_RestaurantSite new_URL j = None)))"
  shows "\<exists>e. rewrite_attempt chat JSON_parse new_URL raw = Inl e"
  using assms by (auto simp: rewrite_attempt_def)

text \<open>
  C1. When the call to the content model fails, or its answer has no content, or the
  content is not JSON, or the JSON is refused by the schema, \<open>rewriteContent\<close>
  returns its input record; it has no other outcome than a record, whatever the key.
\<close>

theorem rewriteContent_falls_back:
  assumes "chat raw = ApiFailure \<or> chat raw = Completion None \<or> chat raw = Completion (Some [])
     \<or> (\<exists>c. chat raw = Completion (Some c) \<and>
            (JSON_parse c = None \<or>
             (\<exists>j. JSON_parse c = Some j \<and> z_RestaurantSite new_URL j = None)))"
  shows "fst (rewriteContent key chat JSON_parse new_URL raw) = raw"
proof -
  from assms have "\<exists>e. rewrite_attempt chat JSON_parse new_URL raw = Inl e"
    by (rule rewrite_attempt_rejected)
  then obtain e where "rewrite_attempt chat JSON_parse new_URL raw = Inl e" by blast
  then show ?thesis by (simp add: rewriteContent_def)
qed

theorem rewriteContent_falls_back_witness:
  "fst (rewriteContent (Some ''sk-test'') refusing_model prose_parser web_URL sample_site)
     = sample_site"
proof -
  have "\<exists>c. refusing_model sample_site = Completion (Some c) \<and>
          (prose_parser c = None \<or>
           (\<exists>j. prose_parser c = Some j \<and> z_RestaurantSite web_URL j = None))"
    by (simp add: refusing_model_def prose_parser_def)
  then show ?thesis
    using rewriteContent_falls_back[of refusing_model sample_site prose_parser web_URL
            "Some ''sk-test''"]
    by blast
qed

text \<open>
  The same at the level of the pipeline: when the attempt fails on the normalized
  record, the run with \<^verbatim>\<open>--ai\<close> builds the record that the run without it
  builds.
\<close>

lemma build_artifact_rewrite_failed:
  assumes "normalizeRestaurantData (pf_new_URL pf) (pf_clock pf) d u = Inr n"
    and "rewrite_attempt (pf_chat pf) (pf_JSON_parse pf) (pf_new_URL pf) n = Inl e"
  shows "build_artifact pf True d u = build_artifact pf False d u"
  using assms by (simp add: build_artifact_def rewriteContent_def)

text \<open>
  C5. Without a key (the variable unset or empty) \<open>rewriteContent\<close> returns its input
  and sends no request.
\<close>

theorem rewriteContent_without_key:
  "\<not> truthy key \<Longrightarrow> rewriteContent key chat JSON_parse new_URL raw = (raw, [])"
  by (simp add: rewriteContent_def)

theorem rewriteContent_without_key_witness:
  "rewriteContent None renaming_model renamed_parser web_URL sample_site = (sample_site, []) \<and>
   rewriteContent (Some []) renaming_model renamed_parser web_URL sample_site
     = (sample_site, [])"
  using rewriteContent_without_key[of None renaming_model renamed_parser web_URL sample_site]
        rewriteContent_without_key[of "Some []" renaming_model renamed_parser web_URL
          sample_site]
  by simp

lemma z_renamed:
  "z_RestaurantSite web_URL renamed_json = Some (sample_site\<lparr>slug := ''other''\<rparr>)"
  by (simp add: z_RestaurantSite_def renamed_json_def field_def z_required_def z_optional_def
      z_Theme_def z_Theme_object_def z_default_def web_URL_https_example sample_site_def
      default_theme_def)

text \<open>
  C6 as stated: an accepted response leaves the slug, the theme and the provenance
  fields of the input in place. It need not: here the response passes the schema with
  another slug, and the returned record carries that slug.
\<close>

theorem rewriteContent_slug_counterexample:
  "rewriteContent (Some ''sk-test'') renaming_model renamed_parser web_URL sample_site
     = (sample_site\<lparr>slug := ''other''\<rparr>, [sample_site]) \<and>
   slug (sample_site\<lparr>slug := ''other''\<rparr>) \<noteq> slug sample_site"
  by (simp add: rewriteContent_def rewrite_attempt_def z_renamed renaming_model_def
        renamed_parser_def)
     (simp add: renamed_content_def sample_site_def)

lemma z_required_string_iff: "z_required z_string x = Some s \<longleftrightarrow> x = Some (JStr s)"
  by (cases x; simp add: z_required_def) (metis z_string.elims option.distinct(1) option.inject z_string.simps(1))

lemma z_required_url_Some: "z_required (z_url p) x = Some s \<Longrightarrow> x = Some (JStr s)"
  by (cases x; simp add: z_required_def) (auto elim!: z_url.elims split: option.splits)

lemma z_RestaurantSite_fields:
  assumes "z_RestaurantSite new_URL j = Some v"
  shows "\<exists>kv. j = JObj kv \<and>
           field kv ''slug'' = Some (JStr (slug v)) \<and>
           field kv ''sourceUrl'' = Some (JStr (sourceUrl v)) \<and>
           field kv ''lastScrapedAt'' = Some (JStr (lastScrapedAt v)) \<and>
           z_Theme (field kv ''theme'') = Some (theme v)"
proof (cases j)
  case (JObj kv)
  from assms[unfolded JObj z_RestaurantSite_def]
  have "z_required z_string (field kv ''slug'') = Some (slug v) \<and>
        z_required (z_url new_URL) (field kv ''sourceUrl'') = Some (sourceUrl v) \<and>
        z_required z_string (field kv ''lastScrapedAt'') = Some (lastScrapedAt v) \<and>
        z_Theme (field kv ''theme'') = Some (theme v)"
    by (auto simp: bind_eq_Some_conv)
  then show ?thesis using JObj
    by (auto simp: z_required_string_iff dest: z_required_url_Some)
qed (use assms in \<open>simp_all add: z_RestaurantSite_def\<close>)

text \<open>
  C6, amended. For an accepted response the returned record is the validated response
  itself. Its slug, source URL and time stamp are the strings of the response, and its
  theme is the theme of the response completed with the defaults of the schema; so each
  of the four equals the field of the input exactly when the response repeats it.
\<close>

theorem rewriteContent_returns_response:
  assumes "truthy key" and "chat raw = Completion (Some c)" and "c \<noteq> []"
    and "JSON_parse c = Some j" and "z_RestaurantSite new_URL j = Some v"
  shows "fst (rewriteContent key chat JSON_parse new_URL raw) = v \<and>
         (\<exists>kv. j = JObj kv \<and>
            (slug v = slug raw \<longleftrightarrow> field kv ''slug'' = Some (JStr (slug raw))) \<and>
            (sourceUrl v = sourceUrl raw \<longleftrightarrow> field kv ''sourceUrl'' = Some (JStr (sourceUrl raw))) \<and>
            (lastScrapedAt v = lastScrapedAt raw \<longleftrightarrow>
               field kv ''lastScrapedAt'' = Some (JStr (lastScrapedAt raw))) \<and>
            (theme v = theme raw \<longleftrightarrow> z_Theme (field kv ''theme'') = Some (theme raw)))"
proof -
  have "fst (rewriteContent key chat JSON_parse new_URL raw) = v"
    using assms by (simp add: rewriteContent_def rewrite_attempt_def)
  moreover from z_RestaurantSite_fields[OF assms(5)] obtain kv where
    "j = JObj kv" "field kv ''slug'' = Some (JStr (slug v))"
    "field kv ''sourceUrl'' = Some (JStr (sourceUrl v))"
    "field kv ''lastScrapedAt'' = Some (JStr (lastScrapedAt v))"
    "z_Theme (field kv ''theme'') = Some (theme v)" by blast
  ultimately show ?thesis by auto
qed

theorem rewriteContent_returns_response_witness:
  "fst (rewriteContent (Some ''sk-test'') renaming_model renamed_parser web_URL sample_site)
     = sample_site\<lparr>slug := ''other''\<rparr> \<and>
   slug (sample_site\<lparr>slug := ''other''\<rparr>) \<noteq> slug sample_site \<and>
   sourceUrl (sample_site\<lparr>slug := ''other''\<rparr>) = sourceUrl sample_site"
proof -
  have k: "truthy (Some ''sk-test'')" by simp
  have m: "renaming_model sample_site = Completion (Some renamed_content)"
    by (simp add: renaming_model_def)
  have c: "renamed_content \<noteq> []" by (simp add: renamed_content_def)
  have p: "renamed_parser renamed_content = Some renamed_json"
    by (simp add: renamed_parser_def)
  from rewriteContent_returns_response[where key = "Some ''sk-test''" and chat = renaming_model
         and raw = sample_site and c = renamed_content and JSON_parse = renamed_parser
         and j = renamed_json and new_URL = web_URL
         and v = "sample_site\<lparr>slug := ''other''\<rparr>", OF k m c p z_renamed]
  show ?thesis by (simp add: sample_site_def)
qed

subsection \<open>The image localizer\<close>

lemma localize_ref_localized:
  "file \<noteq> [] \<Longrightarrow> ref_localized fetch fs_ok slg file img (localize fetch fs_ok new_URL slg file img)"
  by (cases img)
     (auto simp: ref_localized_def localize_def downloadImage_def finalFilename_def)

lemma download_items_localized:
  "list_all2 (\<lambda>i i'. ref_localized fetch fs_ok slg (slugify (item_name i) @ ''.jpg'')
                        (item_image i) (item_image i'))
     its (download_items fetch fs_ok new_URL slg its)"
  by (induction its) (simp_all add: localize_ref_localized)

lemma download_menu_localized:
  "list_all2 (\<lambda>c c'. list_all2 (\<lambda>i i'. ref_localized fetch fs_ok slg
                          (slugify (item_name i) @ ''.jpg'') (item_image i) (item_image i'))
                        (category_items c) (category_items c'))
     cs (download_menu fetch fs_ok new_URL slg cs)"
  by (induction cs) (simp_all add: download_items_localized)

lemma download_sections_localized:
  "list_all2 (\<lambda>s s'. ref_localized fetch fs_ok slg (slugify (section_title s) @ ''.jpg'')
                        (section_image s) (section_image s'))
     ss (download_sections fetch fs_ok new_URL slg ss)"
  by (induction ss) (simp_all add: localize_ref_localized)

text \<open>
  C2. \<open>downloadAllImages\<close> always returns a record. In it, every remote reference
  whose request failed is the reference that went in, and every remote reference whose
  download succeeded is the public path \<^verbatim>\<open>/_imports/<slug>/<file>\<close>; this holds for
  any number of failures, one among five included.
\<close>

theorem downloadAllImages_tolerates_failures:
  "ref_localized fetch fs_ok slg ''hero.jpg'' (heroImage site)
      (heroImage (downloadAllImages fetch fs_ok new_URL site slg)) \<and>
   ref_localized fetch fs_ok slg ''logo.jpg'' (logo site)
      (logo (downloadAllImages fetch fs_ok new_URL site slg)) \<and>
   rel_option
     (list_all2 (\<lambda>c c'. list_all2 (\<lambda>i i'. ref_localized fetch fs_ok slg
                            (slugify (item_name i) @ ''.jpg'') (item_image i) (item_image i'))
                          (category_items c) (category_items c')))
     (menu site) (menu (downloadAllImages fetch fs_ok new_URL site slg)) \<and>
   rel_option
     (list_all2 (\<lambda>s s'. ref_localized fetch fs_ok slg (slugify (section_title s) @ ''.jpg'')
                          (section_image s) (section_image s')))
     (sections site) (sections (downloadAllImages fetch fs_ok new_URL site slg))"
  by (cases "menu site"; cases "sections site")
     (simp_all add: downloadAllImages_def localize_ref_localized download_menu_localized
        download_sections_localized)

lemmas image_defs =
  downloadAllImages_def localize_def downloadImage_def finalFilename_def public_path_def
  is_remote_def response_ok_def

theorem downloadAllImages_tolerates_failures_witness:
  "heroImage (downloadAllImages logo_missing disk_ok web_URL five_images ''examplecom'')
     = Some ''/_imports/examplecom/hero.jpg'' \<and>
   logo (downloadAllImages logo_missing disk_ok web_URL five_images ''examplecom'')
     = Some ''https://example.com/img/logo.png'' \<and>
   map_option (map (\<lambda>c. map item_image (category_items c)))
     (menu (downloadAllImages logo_missing disk_ok web_URL five_images ''examplecom''))
     = Some [[Some ''/_imports/examplecom/beef-chow-mein.jpg'',
              Some ''/_imports/examplecom/won-ton-soup.jpg'']] \<and>
   map_option (map section_image)
     (sections (downloadAllImages logo_missing disk_ok web_URL five_images ''examplecom''))
     = Some [Some ''/_imports/examplecom/our-story.jpg'']"
  using downloadAllImages_tolerates_failures[of logo_missing disk_ok "''examplecom''"
          five_images web_URL]
  by (simp add: ref_localized_def five_images_def sample_site_def logo_missing_def
        disk_ok_def image_defs slug_defs char_class_defs)

lemma localize_untouched: "local_untouched img (localize fetch fs_ok new_URL slg file img)"
  by (cases img) (auto simp: local_untouched_def localize_def is_remote_def)

lemma download_items_frame:
  "list_all2 (\<lambda>i i'. i' = i\<lparr>item_image := item_image i'\<rparr> \<and>
                        local_untouched (item_image i) (item_image i'))
     its (download_items fetch fs_ok new_URL slg its)"
  by (induction its) (simp_all add: localize_untouched)

lemma download_menu_frame:
  "list_all2 (\<lambda>c c'. c' = c\<lparr>category_items := category_items c'\<rparr> \<and>
                list_all2 (\<lambda>i i'. i' = i\<lparr>item_image := item_image i'\<rparr> \<and>
                             local_untouched (item_image i) (item_image i'))
                          (category_items c) (category_items c'))
     cs (download_menu fetch fs_ok new_URL slg cs)"
  by (induction cs) (simp_all add: download_items_frame)

lemma download_sections_frame:
  "list_all2 (\<lambda>s s'. s' = s\<lparr>section_image := section_image s'\<rparr> \<and>
                        local_untouched (section_image s) (section_image s'))
     ss (download_sections fetch fs_ok new_URL slg ss)"
  by (induction ss) (simp_all add: localize_untouched)

text \<open>
  C10. The record returned by \<open>downloadAllImages\<close> is the input with at most the hero
  image, the logo, the menu and the sections replaced; in the menu only the image of an
  item can differ, in the sections only the image of a section; and a reference that
  starts with a slash comes out as it went in.
\<close>

theorem downloadAllImages_frame:
  fixes fetch :: network and fs_ok :: "string \<Rightarrow> bool" and new_URL :: url_parser
    and site :: RestaurantSite and slg :: string
  defines "out \<equiv> downloadAllImages fetch fs_ok new_URL site slg"
  shows "out = site\<lparr>heroImage := heroImage out, logo := logo out, menu := menu out,
                    sections := sections out\<rparr> \<and>
         slug out = slug site \<and> name out = name site \<and> hours out = hours site \<and>
         reviews out = reviews site \<and> theme out = theme site \<and>
         sourceUrl out = sourceUrl site \<and> lastScrapedAt out = lastScrapedAt site \<and>
         images out = images site \<and>
         local_untouched (heroImage site) (heroImage out) \<and>
         local_untouched (logo site) (logo out) \<and>
         rel_option
           (list_all2 (\<lambda>c c'. c' = c\<lparr>category_items := category_items c'\<rparr> \<and>
                list_all2 (\<lambda>i i'. i' = i\<lparr>item_image := item_image i'\<rparr> \<and>
                             local_untouched (item_image i) (item_image i'))
                          (category_items c) (category_items c')))
           (menu site) (menu out) \<and>
         rel_option
           (list_all2 (\<lambda>s s'. s' = s\<lparr>section_image := section_image s'\<rparr> \<and>
                                local_untouched (section_image s) (section_image s')))
           (sections site) (sections out)"
  unfolding out_def
  by (cases "menu site"; cases "sections site")
     (simp_all add: downloadAllImages_def localize_untouched download_menu_frame
        download_sections_frame)

subsection \<open>Ratings of scraped reviews\<close>

lemmas review_defs =
  extractReviews_def reviewSelectors_def review_of_def select_all_def find_in_def
  selection_text_def digits_rx_def parseInt_def digit_value_def group_def trim_def

lemma extractReviews_review_page:
  "extractReviews review_page =
     [\<lparr>review_source = None, review_text = ''Best noodles in town, will return! 10/10'',
       review_rating = Some 10, review_author = None\<rparr>]"
  by (simp add: review_page_def review_defs char_class_defs)

text \<open>
  C9. Every rating in a record written by the pipeline should lie between 1 and 5. For
  the page whose rating element reads \<^verbatim>\<open>10/10\<close>, the extractor takes the first
  run of digits, the pipeline without the rewriter validates nothing, and the record to
  be written has a review rated 10, which the schema refuses.
\<close>

theorem build_artifact_rating_out_of_range:
  "build_artifact offline False
     (empty_scrape\<lparr>sd_reviews := extractReviews review_page\<rparr>) ''https://example.com'' =
     Inr \<lparr>slug = ''examplecom'', name = ''Restaurant'', tagline = None, heroImage = None,
          logo = None, phone = None, email = None, address = None, hours = None,
          reservationUrl = None, orderOnlineUrl = None,
          social = Some \<lparr>social_instagram = None, social_facebook = None,
                          social_tiktok = None, social_x = None\<rparr>,
          sections = Some [],
          reviews = Some [\<lparr>review_source = None,
                           review_text = ''Best noodles in town, will return! 10/10'',
                           review_rating = Some 10, review_author = None\<rparr>],
          menu = Some [], images = Some [], theme = default_theme,
          sourceUrl = ''https://example.com'',
          lastScrapedAt = ''2025-01-01T00:00:00.000Z''\<rparr> \<and>
   rating_ok (Some 10) = False"
  by (simp add: extractReviews_review_page build_artifact_def offline_def empty_scrape_def
        normalizeRestaurantData_def parseHours_def normalize_review_def
        downloadAllImages_def localize_def rating_ok_def createSlugFromUrl_def
        web_URL_https_example slug_defs char_class_defs)

end
